theory Spec2Isabelle
  imports Complex_Main "HOL-Library.Word"
begin

section \<open>JavaScript values\<close>

text \<open>
  The values the relay and its client handle at run time. A TypeScript annotation such as
  \<^verbatim>\<open>as RequestBody\<close> checks nothing when the program runs, so a parsed request body is any
  JSON value and a property read on it may yield \<^verbatim>\<open>undefined\<close>. A number stands for the
  value of the double that \<^verbatim>\<open>JSON.parse\<close> produced (an infinite one for any number other
  than zero); the program only ever tests it for being zero. An object is the list of its own properties, each key once.
\<close>

datatype js_value =
    Undefined
  | Null
  | Bool bool
  | Number rat
  | String string
  | Array "js_value list"
  | Object "(string \<times> js_value) list"

text \<open>
  What a \<^verbatim>\<open>throw\<close> or a rejected promise carries: an instance of \<^verbatim>\<open>Error\<close> (or of a
  subclass such as \<^verbatim>\<open>TypeError\<close> or \<^verbatim>\<open>SyntaxError\<close>) with its message, or some other
  value, for which \<^verbatim>\<open>instanceof Error\<close> is false.
\<close>

datatype exn = Error (message: string) | NonError string

text \<open>The \<^verbatim>\<open>TypeError\<close> of reading a property of \<^verbatim>\<open>undefined\<close> or \<^verbatim>\<open>null\<close>, or of
  iterating over \<^verbatim>\<open>undefined\<close>; the argument names the place.\<close>

definition TypeError :: "string \<Rightarrow> exn" where
  "TypeError place = Error (''TypeError at '' @ place)"

text \<open>\<^verbatim>\<open>!v\<close> is false exactly for the truthy values.\<close>

fun truthy :: "js_value \<Rightarrow> bool" where
  "truthy Undefined = False"
| "truthy Null = False"
| "truthy (Bool b) = b"
| "truthy (Number n) = (n \<noteq> 0)"
| "truthy (String s) = (s \<noteq> [])"
| "truthy (Array vs) = True"
| "truthy (Object kvs) = True"

text \<open>
  \<^verbatim>\<open>v.k\<close> for a value other than \<^verbatim>\<open>null\<close> and \<^verbatim>\<open>undefined\<close>, and for the property
  names this program reads (none of them is inherited from a prototype): an object
  gives its own property, every other value gives \<^verbatim>\<open>undefined\<close>.
\<close>

fun get_prop :: "js_value \<Rightarrow> string \<Rightarrow> js_value" where
  "get_prop (Object kvs) k = (case map_of kvs k of None \<Rightarrow> Undefined | Some v \<Rightarrow> v)"
| "get_prop v k = Undefined"

text \<open>An optional string field of a typed object, read as a value.\<close>

definition optional_string :: "string option \<Rightarrow> js_value" where
  "optional_string s = (case s of None \<Rightarrow> Undefined | Some t \<Rightarrow> String t)"

text \<open>A template literal that spans several lines, given by its lines.\<close>

fun template_literal :: "string list \<Rightarrow> string" where
  "template_literal [] = []"
| "template_literal [l] = l"
| "template_literal (l # ls) = l @ CHR 0x0A # template_literal ls"

section \<open>The relay service: \<^verbatim>\<open>handler\<close>\<close>

subsection \<open>The two instruction templates\<close>

definition LOFI_PROMPT :: string where
  "LOFI_PROMPT = template_literal
    [''Transform this photo to look like it was taken at a party or social event between 2002-2005 with a typical consumer point-and-shoot digital camera. The aesthetic is \"2000s Nightlife Throwback\" - think authentic, not overly polished.'',
     '''',
     ''Key transformations to apply:'',
     ''1.  **Simulate On-Camera Flash:** Re-light the image to mimic a direct, on-camera flash. This should create bright, slightly blown-out highlights on the foreground subject (especially faces) and cause the background to appear darker with some vignetting, as if it were a poorly lit room. Avoid making the shadows completely black; some background detail should remain visible.'',
     ''2.  **Authentic Color Shift:** Adjust the colors to match early digital sensors. This includes slightly boosting saturation and adding a subtle cool tint (blue or magenta), particularly in the mid-tones and shadows.'',
     ''3.  **Low-Resolution Feel:** Introduce a moderate amount of digital noise/grain and a slight overall softness to the image to replicate a low-megapixel sensor.'',
     ''4.  **Date Stamp:** Add a classic yellow or orange digital date stamp in the bottom-right corner. Use a common font from that era. The format should be like '04 11 18' (YY MM DD). Use a random date between 2003 and 2005.'',
     ''5.  **Watermark Logo:** In the bottom-left corner, add a small, semi-transparent watermark logo. The logo should be text-based, saying '2000s FLASHBACK' in a clean, futuristic, sans-serif font (similar to Orbitron or other digital-style fonts). The word 'FLASH' should be a different, vibrant color like neon pink or cyan. The rest of the text should be white.'',
     '''',
     ''The transformation should be noticeable and stylistic, but it must respect the original subject and composition. The final image should look like a plausible photograph from that time, not an extreme special effect.'']"

definition CUTOUT_PROMPT :: string where
  "CUTOUT_PROMPT = template_literal
    [''Create a fun, \"paper cutout\" or scrapbook-style image from the provided photo. The aesthetic is a playful and chaotic 2000s throwback.'',
     '''',
     ''Key transformations to apply:'',
     ''1.  **Isolate and Style Subject:** Identify the main subject(s) in the photo. Create a \"cutout\" of them with a distinct, slightly uneven white border, as if they were cut out with scissors.'',
     ''2.  **Create Artboard Background:** Place the subject cutout onto a simple, flat, colored artboard background. The color should be vibrant and reminiscent of the era, like pastel pink, electric blue, or lime green.'',
     ''3.  **Add a Random Mix of Themed Objects:** From the extensive list below, randomly select 3 to 5 different objects to generate as small paper cutouts. Scatter them around the main subject. These objects must also have white \"cutout\" borders.'',
     ''    **Iconic 2000s Object List:**'',
     ''    - A flip phone (like a Motorola RAZR or a Nokia)'',
     ''    - A blank CD-R with \"Mix Tape\" handwritten on it'',
     ''    - An energy drink can (like Red Bull)'',
     ''    - An early iPod model with a click wheel'',
     ''    - A disposable camera'',
     ''    - A digital pet on a keychain (like a Tamagotchi)'',
     ''    - A Blockbuster video rental case'',
     ''    - A portable CD player (Discman)'',
     ''    - A floppy disk'',
     ''    - Y2K-style sunglasses (like shield sunglasses)'',
     ''    - Butterfly hair clips'',
     ''    - A chunky CRT computer monitor displaying a classic instant messenger window'',
     ''    - Bubble graffiti text saying one of the following: \"OMG!\", \"LOL\", \"BFF\", \"Pwned\", or \"Cool!\".'',
     ''4.  **Composition and Shadow:** Arrange all cutouts (the main subject and the randomly selected themed objects) in a dynamic, overlapping, and random-looking composition. Apply a subtle drop shadow to all cutouts to give them a slight 3D effect, making them look like they're sitting on top of the artboard.'',
     ''5.  **Watermark Logo:** Somewhere on the artboard, place a stylized text logo that says '2000s FLASHBACK'. The logo should fit the scrapbook theme, perhaps looking like another cutout or a sticker. Use a clean, futuristic font. The word 'FLASH' should be a different, vibrant color like neon pink or cyan to make it pop.'',
     '''',
     ''The final image should be a creative, fun, and unique collage that screams nostalgia for the early 2000s. The randomness of the objects is key to making each creation feel special.'']"

subsection \<open>Requests, responses and the external model\<close>

record event =
  httpMethod :: string
  event_body :: "string option"

text \<open>The body of a response: a plain text, or \<^verbatim>\<open>JSON.stringify\<close> of a value.\<close>

datatype response_body = Plain string | JSON_stringify js_value

record http_response =
  statusCode :: nat
  headers :: "(string \<times> string) list option"
  body :: response_body

text \<open>
  The argument of \<^verbatim>\<open>ai.models.generateContent\<close>: the model's name, the two parts of
  \<^verbatim>\<open>contents\<close> (the inline image and the instruction text) and the response modalities.
\<close>

record gen_request =
  model :: string
  inline_data :: js_value
  inline_mimeType :: js_value
  prompt_text :: string
  responseModalities :: "string list"

text \<open>The model's answer, with the optional fields of the SDK's types.\<close>

record blob =
  data :: "string option"
  blob_mimeType :: "string option"

record part =
  inlineData :: "blob option"
  part_text :: "string option"

record content =
  parts :: "part list option"

record candidate =
  candidate_content :: "content option"

record gen_response =
  candidates :: "candidate list option"

text \<open>
  What a run of the handler does besides returning: it reads the environment, parses a
  text as JSON, calls the external model (with the credential and the request) and
  writes to the error log. The handler returns its response with the list of these
  effects, in the order they happen.
\<close>

datatype effect =
    ReadEnv
  | ParseJSON string
  | GenerateContent string gen_request
  | ConsoleError exn

definition method_not_allowed :: http_response where
  "method_not_allowed = \<lparr>statusCode = 405, headers = None, body = Plain ''Method Not Allowed''\<rparr>"

definition error_response :: "nat \<Rightarrow> string \<Rightarrow> http_response" where
  "error_response code msg =
     \<lparr>statusCode = code, headers = None, body = JSON_stringify (Object [(''error'', String msg)])\<rparr>"

definition configuration_error :: http_response where
  "configuration_error = error_response 500 ''Server configuration error: API key is not set up.''"

definition missing_fields :: http_response where
  "missing_fields = error_response 400 ''Missing required image data or style.''"

definition no_image :: http_response where
  "no_image = error_response 500 ''The AI model did not return an image. Please try a different photo.''"

definition internal_error :: http_response where
  "internal_error = error_response 500 ''An internal error occurred while transforming the image.''"

definition success :: "js_value \<Rightarrow> http_response" where
  "success d =
     \<lparr>statusCode = 200, headers = Some [(''Content-Type'', ''application/json'')],
      body = JSON_stringify (Object [(''transformedBase64'', d)])\<rparr>"

subsection \<open>Response mapping\<close>

text \<open>
  \<^verbatim>\<open>response.candidates[0].content.parts\<close>, made ready for \<^verbatim>\<open>for ... of\<close>: every missing
  link of the chain is a \<^verbatim>\<open>TypeError\<close>.
\<close>

definition response_parts :: "gen_response \<Rightarrow> exn + part list" where
  "response_parts r =
     (case candidates r of
        None \<Rightarrow> Inl (TypeError ''candidates[0]'')
      | Some [] \<Rightarrow> Inl (TypeError ''candidates[0].content'')
      | Some (c # cs) \<Rightarrow>
          (case candidate_content c of
             None \<Rightarrow> Inl (TypeError ''content.parts'')
           | Some ct \<Rightarrow>
               (case parts ct of
                  None \<Rightarrow> Inl (TypeError ''parts is not iterable'')
                | Some ps \<Rightarrow> Inr ps)))"

text \<open>The loop over the parts: the first part with \<^verbatim>\<open>inlineData\<close> returns from the
  handler; \<open>None\<close> when the loop ends without returning.\<close>

fun scan_parts :: "part list \<Rightarrow> http_response option" where
  "scan_parts [] = None"
| "scan_parts (p # ps) =
     (case inlineData p of
        Some b \<Rightarrow> Some (success (optional_string (data b)))
      | None \<Rightarrow> scan_parts ps)"

definition map_response :: "part list \<Rightarrow> http_response" where
  "map_response ps = (case scan_parts ps of Some r \<Rightarrow> r | None \<Rightarrow> no_image)"

subsection \<open>The handler\<close>

definition build_request :: "js_value \<Rightarrow> js_value \<Rightarrow> js_value \<Rightarrow> gen_request" where
  "build_request base64ImageData mimeType style =
     \<lparr>model = ''gemini-2.5-flash-image-preview'',
      inline_data = base64ImageData,
      inline_mimeType = mimeType,
      prompt_text = (if style = String ''lofi'' then LOFI_PROMPT else CUTOUT_PROMPT),
      responseModalities = [''IMAGE'', ''TEXT'']\<rparr>"

text \<open>
  The call of the external model and the mapping of its answer. \<open>gen\<close> is
  \<^verbatim>\<open>ai.models.generateContent\<close> for a client made with the credential (\<open>Inl\<close> whatever
  it throws). The result is \<open>Inl\<close> for an exception and \<open>Inr\<close> for a response returned.
\<close>

definition invoke_model ::
  "(string \<Rightarrow> gen_request \<Rightarrow> exn + gen_response) \<Rightarrow> string \<Rightarrow> gen_request \<Rightarrow>
   exn + http_response" where
  "invoke_model gen key req =
     (case gen key req of
        Inl e \<Rightarrow> Inl e
      | Inr response \<Rightarrow>
          (case response_parts response of
             Inl e \<Rightarrow> Inl e
           | Inr ps \<Rightarrow> Inr (map_response ps)))"

text \<open>\<^verbatim>\<open>event.body || '{}'\<close>: a body that is \<^verbatim>\<open>null\<close> or empty is read as the empty object.\<close>

definition body_text :: "event \<Rightarrow> string" where
  "body_text ev = (case event_body ev of None \<Rightarrow> ''{}'' | Some b \<Rightarrow> if b = [] then ''{}'' else b)"

text \<open>
  The \<^verbatim>\<open>try\<close> block. \<open>parse\<close> is \<^verbatim>\<open>JSON.parse\<close> (\<open>Inl\<close> its \<^verbatim>\<open>SyntaxError\<close>). The
  result is \<open>Inl\<close> for an exception that leaves the block and \<open>Inr\<close> for a
  \<^verbatim>\<open>return\<close> inside it, with the effects of the block.
\<close>

definition try_block ::
  "(string \<Rightarrow> exn + js_value) \<Rightarrow> (string \<Rightarrow> gen_request \<Rightarrow> exn + gen_response) \<Rightarrow>
   string \<Rightarrow> event \<Rightarrow> (exn + http_response) \<times> effect list" where
  "try_block parse gen key ev =
     (let src = body_text ev
      in case parse src of
           Inl e \<Rightarrow> (Inl e, [ParseJSON src])
         | Inr v \<Rightarrow>
             if v = Null \<or> v = Undefined then (Inl (TypeError ''destructuring''), [ParseJSON src])
             else
               let base64ImageData = get_prop v ''base64ImageData'';
                   mimeType = get_prop v ''mimeType'';
                   style = get_prop v ''style''
               in if \<not> truthy base64ImageData \<or> \<not> truthy mimeType \<or> \<not> truthy style
                  then (Inr missing_fields, [ParseJSON src])
                  else
                    let req = build_request base64ImageData mimeType style
                    in (invoke_model gen key req, [ParseJSON src, GenerateContent key req]))"

text \<open>
  The handler: the method check, the credential check (\<open>api_key\<close> is
  \<^verbatim>\<open>process.env.API_KEY\<close>, \<open>None\<close> when the variable is not set), the \<^verbatim>\<open>try\<close> block
  and its \<^verbatim>\<open>catch\<close>.
\<close>

definition handler ::
  "(string \<Rightarrow> exn + js_value) \<Rightarrow> (string \<Rightarrow> gen_request \<Rightarrow> exn + gen_response) \<Rightarrow>
   string option \<Rightarrow> event \<Rightarrow> http_response \<times> effect list" where
  "handler parse gen api_key ev =
     (if httpMethod ev \<noteq> ''POST'' then (method_not_allowed, [])
      else
        case api_key of
          None \<Rightarrow> (configuration_error, [ReadEnv])
        | Some key \<Rightarrow>
            if key = [] then (configuration_error, [ReadEnv])
            else
              (case try_block parse gen key ev of
                 (Inr r, effs) \<Rightarrow> (r, ReadEnv # effs)
               | (Inl e, effs) \<Rightarrow> (internal_error, ReadEnv # effs @ [ConsoleError e])))"

text \<open>The calls of the external model among the effects of a run.\<close>

fun model_calls :: "effect list \<Rightarrow> (string \<times> gen_request) list" where
  "model_calls [] = []"
| "model_calls (GenerateContent k r # es) = (k, r) # model_calls es"
| "model_calls (e # es) = model_calls es"

section \<open>The relay client: \<^verbatim>\<open>transformImage\<close>\<close>

datatype TransformStyle = lofi | cutout

fun style_text :: "TransformStyle \<Rightarrow> string" where
  "style_text lofi = ''lofi''"
| "style_text cutout = ''cutout''"

record fetch_request =
  url :: string
  request_method :: string
  request_headers :: "(string \<times> string) list"
  request_body :: response_body

text \<open>A settled \<^verbatim>\<open>fetch\<close>: \<open>json\<close> is what \<^verbatim>\<open>response.json()\<close> settles to, \<open>Inl\<close> when
  it rejects.\<close>

record fetch_response =
  ok :: bool
  status :: nat
  json :: "exn + js_value"

definition transform_request :: "string \<Rightarrow> string \<Rightarrow> TransformStyle \<Rightarrow> fetch_request" where
  "transform_request base64ImageData mimeType style =
     \<lparr>url = ''/.netlify/functions/transform-image'',
      request_method = ''POST'',
      request_headers = [(''Content-Type'', ''application/json'')],
      request_body = JSON_stringify (Object
        [(''base64ImageData'', String base64ImageData),
         (''mimeType'', String mimeType),
         (''style'', String (style_text style))])\<rparr>"

text \<open>The decimal digits of a number, as a template literal prints \<^verbatim>\<open>response.status\<close>.\<close>

fun show_nat :: "nat \<Rightarrow> string" where
  "show_nat n =
     (if n < 10 then [char_of (48 + n)]
      else show_nat (n div 10) @ [char_of (48 + n mod 10)])"

text \<open>
  The message of \<^verbatim>\<open>new Error(v)\<close>: a string is taken as it is, any other value goes
  through the language's conversion to a string, \<open>to_string\<close>.
\<close>

definition error_message :: "(js_value \<Rightarrow> string) \<Rightarrow> js_value \<Rightarrow> string" where
  "error_message to_string v = (case v of String s \<Rightarrow> s | _ \<Rightarrow> to_string v)"

definition parse_failure :: js_value where
  "parse_failure = Object [(''error'', String ''Failed to process the transformation on the server.'')]"

text \<open>The \<^verbatim>\<open>try\<close> block of \<^verbatim>\<open>transformImage\<close>, for a \<^verbatim>\<open>fetch\<close> that settles: \<open>Inl\<close> is
  an exception that leaves the block, \<open>Inr\<close> the value it returns (\<open>Null\<close> for
  \<^verbatim>\<open>null\<close>).\<close>

definition transform_try ::
  "(fetch_request \<Rightarrow> exn + fetch_response) \<Rightarrow> (js_value \<Rightarrow> string) \<Rightarrow>
   string \<Rightarrow> string \<Rightarrow> TransformStyle \<Rightarrow> exn + js_value" where
  "transform_try fetch to_string base64ImageData mimeType style =
     (case fetch (transform_request base64ImageData mimeType style) of
        Inl e \<Rightarrow> Inl e
      | Inr response \<Rightarrow>
          if \<not> ok response then
            (let errorData = (case json response of Inl e \<Rightarrow> parse_failure | Inr d \<Rightarrow> d)
             in if errorData = Null \<or> errorData = Undefined then Inl (TypeError ''errorData.error'')
                else
                  let err = get_prop errorData ''error''
                  in Inl (Error (error_message to_string
                       (if truthy err then err
                        else String (''Server responded with status: '' @ show_nat (status response))))))
          else
            (case json response of
               Inl e \<Rightarrow> Inl e
             | Inr result \<Rightarrow>
                 if result = Null \<or> result = Undefined
                 then Inl (TypeError ''result.transformedBase64'')
                 else
                   let transformedBase64 = get_prop result ''transformedBase64''
                   in if truthy transformedBase64 then Inr transformedBase64 else Inr Null))"

text \<open>With its \<^verbatim>\<open>catch\<close>: every exception is thrown again as a new \<^verbatim>\<open>Error\<close>.\<close>

definition transformImage ::
  "(fetch_request \<Rightarrow> exn + fetch_response) \<Rightarrow> (js_value \<Rightarrow> string) \<Rightarrow>
   string \<Rightarrow> string \<Rightarrow> TransformStyle \<Rightarrow> exn + js_value" where
  "transformImage fetch to_string base64ImageData mimeType style =
     (case transform_try fetch to_string base64ImageData mimeType style of
        Inr v \<Rightarrow> Inr v
      | Inl (Error m) \<Rightarrow> Inl (Error m)
      | Inl (NonError d) \<Rightarrow> Inl (Error ''An unknown error occurred during image transformation.''))"

section \<open>The encoder: \<^verbatim>\<open>fileToBase64\<close>\<close>

text \<open>
  \<^verbatim>\<open>s.split(c)\<close> for a separator of one character: the first piece and the pieces after
  it (the array always has a first element).
\<close>

fun split_str :: "char \<Rightarrow> string \<Rightarrow> string \<times> string list" where
  "split_str c [] = ([], [])"
| "split_str c (x # xs) =
     (case split_str c xs of (w, ws) \<Rightarrow> if x = c then ([], w # ws) else (x # w, ws))"

record image_payload =
  base64 :: string
  mimeType :: string

text \<open>How the file reader ends: \<^verbatim>\<open>onload\<close> with \<^verbatim>\<open>reader.result\<close>, or \<^verbatim>\<open>onerror\<close> with
  its event.\<close>

datatype reader_outcome = Load string | ReadError string

text \<open>The returned promise. It stays pending when the \<^verbatim>\<open>onload\<close> callback throws before
  it calls \<^verbatim>\<open>resolve\<close> or \<^verbatim>\<open>reject\<close>.\<close>

datatype 'a promise = Resolved 'a | Rejected exn | Pending

definition fileToBase64 :: "reader_outcome \<Rightarrow> image_payload promise" where
  "fileToBase64 r =
     (case r of
        ReadError ev \<Rightarrow> Rejected (NonError ev)
      | Load result \<Rightarrow>
          (case split_str CHR '','' result of
             (mimePart, rest) \<Rightarrow>
               (case rest of
                  [] \<Rightarrow> Rejected (Error ''Invalid file format'')
                | base64Part # _ \<Rightarrow>
                    if mimePart = [] \<or> base64Part = [] then Rejected (Error ''Invalid file format'')
                    else
                      (case snd (split_str CHR '':'' mimePart) of
                         [] \<Rightarrow> Pending
                       | after_colon # _ \<Rightarrow>
                           Resolved \<lparr>base64 = base64Part,
                                     mimeType = fst (split_str CHR '';'' after_colon)\<rparr>))))"

text \<open>
  The text \<^verbatim>\<open>FileReader.readAsDataURL\<close> delivers as \<^verbatim>\<open>reader.result\<close> for a file whose
  declared type is \<open>ty\<close> (not empty) and whose bytes have the base64 text \<open>b64\<close>.
\<close>

definition data_url :: "string \<Rightarrow> string \<Rightarrow> string" where
  "data_url ty b64 = ''data:'' @ ty @ '';base64,'' @ b64"

subsection \<open>The text-safe encoding\<close>

text \<open>
  Modelled from the spec: the Encoder's text-safe encoding of the bytes of a file, and
  the inverse decoding. The repository has neither as code: the encoding is left to
  \<^verbatim>\<open>FileReader.readAsDataURL\<close> and nothing in the repository decodes. The wire contract
  names the encoding base64 (\<^verbatim>\<open>base64ImageData\<close>, \<^verbatim>\<open>transformedBase64\<close>); it is given here
  with the standard alphabet and padding.
\<close>

type_synonym byte = "8 word"

text \<open>Modelled from the spec: the 64 characters of the encoding, by their values.\<close>

definition base64_alphabet :: string where
  "base64_alphabet = ''ABCDEFGHIJKLMNOPQRSTUVWXYZabcdefghijklmnopqrstuvwxyz0123456789+/''"

definition sextet_char :: "nat \<Rightarrow> char" where
  "sextet_char i = base64_alphabet ! i"

fun position :: "char \<Rightarrow> string \<Rightarrow> nat" where
  "position c [] = 0"
| "position c (x # xs) = (if x = c then 0 else Suc (position c xs))"

definition char_sextet :: "char \<Rightarrow> nat" where
  "char_sextet c = position c base64_alphabet"

text \<open>Modelled from the spec: three bytes become four characters of six bits each; one
  or two bytes at the end are padded with \<^verbatim>\<open>=\<close>.\<close>

fun encode_octets :: "nat list \<Rightarrow> string" where
  "encode_octets [] = []"
| "encode_octets [a] =
     [sextet_char (a div 4), sextet_char ((a mod 4) * 16), CHR ''='', CHR ''='']"
| "encode_octets [a, b] =
     [sextet_char (a div 4), sextet_char ((a mod 4) * 16 + b div 16),
      sextet_char ((b mod 16) * 4), CHR ''='']"
| "encode_octets (a # b # c # rest) =
     [sextet_char (a div 4), sextet_char ((a mod 4) * 16 + b div 16),
      sextet_char ((b mod 16) * 4 + c div 64), sextet_char (c mod 64)] @ encode_octets rest"

text \<open>Modelled from the spec: the inverse, four characters at a time.\<close>

fun decode_octets :: "string \<Rightarrow> nat list" where
  "decode_octets (w # x # y # z # rest) =
     (if y = CHR ''='' then [char_sextet w * 4 + char_sextet x div 16]
      else if z = CHR ''='' then
        [char_sextet w * 4 + char_sextet x div 16,
         (char_sextet x mod 16) * 16 + char_sextet y div 4]
      else
        [char_sextet w * 4 + char_sextet x div 16,
         (char_sextet x mod 16) * 16 + char_sextet y div 4,
         (char_sextet y mod 4) * 64 + char_sextet z] @ decode_octets rest)"
| "decode_octets s = []"

text \<open>Modelled from the spec: the encoding and the decoding on bytes.\<close>

definition base64_encode :: "byte list \<Rightarrow> string" where
  "base64_encode bs = encode_octets (map unat bs)"

definition base64_decode :: "string \<Rightarrow> byte list" where
  "base64_decode s = map of_nat (decode_octets s)"

text \<open>Modelled from the spec: the input of the Encoder, a binary blob with its declared
  media type, and what the file reader makes of it with the encoding above.\<close>

record image_file =
  file_type :: string
  file_bytes :: "byte list"

definition readAsDataURL :: "image_file \<Rightarrow> string" where
  "readAsDataURL f = data_url (file_type f) (base64_encode (file_bytes f))"

section \<open>Sample requests and answers\<close>

text \<open>
  Concrete inputs on which the definitions above are evaluated further down: a
  credential, request bodies with the values they parse to, and answers of the model.
  \<open>parse_texts\<close> is \<^verbatim>\<open>JSON.parse\<close> on the texts of a table, each with the value it parses
  to; a text outside the table is one that is not JSON.
\<close>

definition parse_texts :: "(string \<times> js_value) list \<Rightarrow> string \<Rightarrow> exn + js_value" where
  "parse_texts table src =
     (case map_of table src of
        Some v \<Rightarrow> Inr v
      | None \<Rightarrow> Inl (Error ''SyntaxError: not valid JSON''))"

definition sample_key :: string where
  "sample_key = ''server-secret''"

definition bogus_text :: string where
  "bogus_text = ''{\"base64ImageData\":\"AAAA\",\"mimeType\":\"image/png\",\"style\":\"bogus\"}''"

definition bogus_value :: js_value where
  "bogus_value = Object [(''base64ImageData'', String ''AAAA''), (''mimeType'', String ''image/png''),
     (''style'', String ''bogus'')]"

definition lofi_text :: string where
  "lofi_text = ''{\"base64ImageData\":\"AAAA\",\"mimeType\":\"image/png\",\"style\":\"lofi\"}''"

definition lofi_value :: js_value where
  "lofi_value = Object [(''base64ImageData'', String ''AAAA''), (''mimeType'', String ''image/png''),
     (''style'', String ''lofi'')]"

definition style_only_text :: string where
  "style_only_text = ''{\"style\":\"bogus\"}''"

definition style_only_value :: js_value where
  "style_only_value = Object [(''style'', String ''bogus'')]"

definition sample_parse :: "string \<Rightarrow> exn + js_value" where
  "sample_parse = parse_texts
     [(''{}'', Object []), (bogus_text, bogus_value), (lofi_text, lofi_value),
      (style_only_text, style_only_value), (''null'', Null)]"

definition post :: "string \<Rightarrow> event" where
  "post b = \<lparr>httpMethod = ''POST'', event_body = Some b\<rparr>"

definition answer :: "part list \<Rightarrow> gen_response" where
  "answer ps = \<lparr>candidates = Some [\<lparr>candidate_content = Some \<lparr>parts = Some ps\<rparr>\<rparr>]\<rparr>"

definition text_part :: "string \<Rightarrow> part" where
  "text_part t = \<lparr>inlineData = None, part_text = Some t\<rparr>"

definition image_part :: "string \<Rightarrow> part" where
  "image_part d = \<lparr>inlineData = Some \<lparr>data = Some d, blob_mimeType = Some ''image/png''\<rparr>, part_text = None\<rparr>"

definition sample_gen :: "string \<Rightarrow> gen_request \<Rightarrow> exn + gen_response" where
  "sample_gen key req = Inr (answer [text_part ''Here you go'', image_part ''BBBB'', image_part ''CCCC''])"

section \<open>Shared facts\<close>

lemma prompts_differ: "LOFI_PROMPT \<noteq> CUTOUT_PROMPT"
  by (simp add: LOFI_PROMPT_def CUTOUT_PROMPT_def)

lemma handler_try:
  assumes "httpMethod ev = ''POST''" "api_key = Some key" "key \<noteq> []"
  shows "handler parse gen api_key ev =
     (case try_block parse gen key ev of
        (Inr r, effs) \<Rightarrow> (r, ReadEnv # effs)
      | (Inl e, effs) \<Rightarrow> (internal_error, ReadEnv # effs @ [ConsoleError e]))"
  using assms by (simp add: handler_def)

lemma try_block_valid:
  assumes "parse (body_text ev) = Inr v" "v \<noteq> Null" "v \<noteq> Undefined"
    "truthy (get_prop v ''base64ImageData'')" "truthy (get_prop v ''mimeType'')"
    "truthy (get_prop v ''style'')"
  shows "try_block parse gen key ev =
     (invoke_model gen key
        (build_request (get_prop v ''base64ImageData'') (get_prop v ''mimeType'') (get_prop v ''style'')),
      [ParseJSON (body_text ev),
       GenerateContent key
        (build_request (get_prop v ''base64ImageData'') (get_prop v ''mimeType'') (get_prop v ''style''))])"
  using assms by (simp add: try_block_def Let_def)

lemma try_block_missing:
  assumes "parse (body_text ev) = Inr v" "v \<noteq> Null" "v \<noteq> Undefined"
    "\<not> truthy (get_prop v ''base64ImageData'') \<or> \<not> truthy (get_prop v ''mimeType'') \<or>
     \<not> truthy (get_prop v ''style'')"
  shows "try_block parse gen key ev = (Inr missing_fields, [ParseJSON (body_text ev)])"
  using assms by (auto simp add: try_block_def Let_def)

lemma try_block_throws:
  assumes "parse (body_text ev) = Inl e"
  shows "try_block parse gen key ev = (Inl e, [ParseJSON (body_text ev)])"
  using assms by (simp add: try_block_def Let_def)

lemma try_block_null:
  assumes "parse (body_text ev) = Inr Null"
  shows "try_block parse gen key ev = (Inl (TypeError ''destructuring''), [ParseJSON (body_text ev)])"
  using assms by (simp add: try_block_def Let_def)

text \<open>A request that passes the presence check: the model is called once, and the
  handler returns what the call and the response mapping give.\<close>

lemma handler_valid:
  assumes "httpMethod ev = ''POST''" "api_key = Some key" "key \<noteq> []"
    "parse (body_text ev) = Inr v" "v \<noteq> Null" "v \<noteq> Undefined"
    "truthy (get_prop v ''base64ImageData'')" "truthy (get_prop v ''mimeType'')"
    "truthy (get_prop v ''style'')"
    "req = build_request (get_prop v ''base64ImageData'') (get_prop v ''mimeType'') (get_prop v ''style'')"
  shows "handler parse gen api_key ev =
     (case invoke_model gen key req of
        Inr r \<Rightarrow> (r, [ReadEnv, ParseJSON (body_text ev), GenerateContent key req])
      | Inl e \<Rightarrow>
          (internal_error,
           [ReadEnv, ParseJSON (body_text ev), GenerateContent key req, ConsoleError e]))"
proof -
  have "try_block parse gen key ev =
      (invoke_model gen key req, [ParseJSON (body_text ev), GenerateContent key req])"
    using assms(4-10) try_block_valid by simp
  then show ?thesis
    using assms(1-3) by (simp add: handler_try split: sum.split)
qed

lemma scan_parts_none: "(\<forall>p\<in>set ps. inlineData p = None) \<Longrightarrow> scan_parts ps = None"
  by (induction ps) auto

lemma scan_parts_first:
  "(\<forall>p\<in>set pre. inlineData p = None) \<Longrightarrow> inlineData p0 = Some b \<Longrightarrow>
   scan_parts (pre @ p0 # rest) = Some (success (optional_string (data b)))"
  by (induction pre) auto

lemma scan_parts_status: "scan_parts ps = Some r \<Longrightarrow> statusCode r = 200"
  by (induction ps) (auto simp: success_def split: option.splits)

lemma map_response_status: "statusCode (map_response ps) = 200 \<or> statusCode (map_response ps) = 500"
  by (auto simp: map_response_def no_image_def error_response_def scan_parts_status split: option.split)

lemma invoke_model_status:
  "invoke_model gen key req = Inr r \<Longrightarrow> statusCode r = 200 \<or> statusCode r = 500"
  using map_response_status
  by (auto simp: invoke_model_def split: sum.splits)

section \<open>The claims\<close>

text \<open>
  Claim C5. A request whose method is not \<^verbatim>\<open>POST\<close> is answered with status 405 at once:
  the run has no effect at all (the environment is not read, nothing is parsed, the
  model is not called), whatever the body, the credential, the parser and the model are.
\<close>

theorem non_post_method_not_allowed:
  assumes "httpMethod ev \<noteq> ''POST''"
  shows "handler parse gen api_key ev = (method_not_allowed, []) \<and>
         statusCode method_not_allowed = 405"
  using assms by (simp add: handler_def method_not_allowed_def)

theorem non_post_method_not_allowed_witness:
  "httpMethod \<lparr>httpMethod = ''GET'', event_body = Some ''not json''\<rparr> \<noteq> ''POST'' \<and>
   handler sample_parse sample_gen None \<lparr>httpMethod = ''GET'', event_body = Some ''not json''\<rparr> =
     (\<lparr>statusCode = 405, headers = None, body = Plain ''Method Not Allowed''\<rparr>, [])"
  using non_post_method_not_allowed
    [of "\<lparr>httpMethod = ''GET'', event_body = Some ''not json''\<rparr>" sample_parse sample_gen None]
  by (simp add: method_not_allowed_def)

text \<open>
  Claim C4. With the credential absent (not set, or set to the empty text) every
  \<^verbatim>\<open>POST\<close> request gets the same configuration-error response with status 500, whatever
  its body is and however it would parse, and the external model is not called.
\<close>

theorem missing_credential_uniform:
  assumes "httpMethod ev = ''POST''" "httpMethod ev' = ''POST''"
    "api_key = None \<or> api_key = Some []"
  shows "handler parse gen api_key ev = (configuration_error, [ReadEnv]) \<and>
         handler parse' gen' api_key ev' = handler parse gen api_key ev \<and>
         statusCode configuration_error = 500 \<and>
         model_calls (snd (handler parse gen api_key ev)) = []"
  using assms by (auto simp add: handler_def configuration_error_def error_response_def)

theorem missing_credential_uniform_witness:
  "handler sample_parse sample_gen None (post lofi_text) =
     (\<lparr>statusCode = 500, headers = None,
       body = JSON_stringify (Object [(''error'',
         String ''Server configuration error: API key is not set up.'')])\<rparr>, [ReadEnv]) \<and>
   handler sample_parse sample_gen None (post ''not json'') =
     handler sample_parse sample_gen None (post lofi_text)"
  using missing_credential_uniform
    [of "post lofi_text" "post ''not json''" None sample_parse sample_gen sample_parse sample_gen]
  by (simp add: post_def configuration_error_def error_response_def)

text \<open>
  Claim C6. When the call of the external model throws (or its answer lacks the
  candidate, content or parts the handler reads), the handler catches the exception,
  logs it and answers with status 500 and one fixed body: the response is the same for
  every exception, so nothing of the exception reaches the caller.
\<close>

theorem model_exception_generic_error:
  assumes "httpMethod ev = ''POST''" "api_key = Some key" "key \<noteq> []"
    "parse (body_text ev) = Inr v" "v \<noteq> Null" "v \<noteq> Undefined"
    "truthy (get_prop v ''base64ImageData'')" "truthy (get_prop v ''mimeType'')"
    "truthy (get_prop v ''style'')"
    "req = build_request (get_prop v ''base64ImageData'') (get_prop v ''mimeType'') (get_prop v ''style'')"
    "gen key req = Inl e \<or> (\<exists>r. gen key req = Inr r \<and> response_parts r = Inl e)"
  shows "handler parse gen api_key ev =
           (internal_error,
            [ReadEnv, ParseJSON (body_text ev), GenerateContent key req, ConsoleError e]) \<and>
         statusCode internal_error = 500 \<and>
         body internal_error = JSON_stringify (Object [(''error'',
           String ''An internal error occurred while transforming the image.'')])"
proof -
  have "invoke_model gen key req = Inl e"
    using assms(11) by (auto simp: invoke_model_def)
  then show ?thesis
    using assms(1-10) handler_valid [of ev api_key key parse v req gen]
    by (simp add: internal_error_def error_response_def)
qed

theorem model_exception_generic_error_witness:
  "handler sample_parse (\<lambda>k r. Inl (Error ''quota exceeded for key server-secret''))
      (Some sample_key) (post lofi_text) =
     (\<lparr>statusCode = 500, headers = None,
       body = JSON_stringify (Object [(''error'',
         String ''An internal error occurred while transforming the image.'')])\<rparr>,
      [ReadEnv, ParseJSON lofi_text,
       GenerateContent sample_key (build_request (String ''AAAA'') (String ''image/png'') (String ''lofi'')),
       ConsoleError (Error ''quota exceeded for key server-secret'')])"
  using model_exception_generic_error
    [of "post lofi_text" "Some sample_key" sample_key sample_parse lofi_value
        "build_request (String ''AAAA'') (String ''image/png'') (String ''lofi'')"
        "\<lambda>k r. Inl (Error ''quota exceeded for key server-secret'')"
        "Error ''quota exceeded for key server-secret''"]
  by (simp add: post_def sample_key_def body_text_def sample_parse_def parse_texts_def
      lofi_text_def lofi_value_def bogus_text_def style_only_text_def internal_error_def error_response_def)

text \<open>
  Claim C3. For a request that passes the checks and a model answer with the parts
  \<open>ps\<close>: the response is status 200 with \<^verbatim>\<open>transformedBase64\<close> set to the data of the first
  part that has \<^verbatim>\<open>inlineData\<close> (every part before it has none), and when no part has
  \<^verbatim>\<open>inlineData\<close> it is status 500 with the message that the model returned no image,
  which differs from the response to an exception.
\<close>

theorem response_mapping_first_inline_part:
  assumes "httpMethod ev = ''POST''" "api_key = Some key" "key \<noteq> []"
    "parse (body_text ev) = Inr v" "v \<noteq> Null" "v \<noteq> Undefined"
    "truthy (get_prop v ''base64ImageData'')" "truthy (get_prop v ''mimeType'')"
    "truthy (get_prop v ''style'')"
    "req = build_request (get_prop v ''base64ImageData'') (get_prop v ''mimeType'') (get_prop v ''style'')"
    "gen key req = Inr r" "response_parts r = Inr ps"
  shows "(ps = pre @ p0 # rest \<and> (\<forall>p\<in>set pre. inlineData p = None) \<and> inlineData p0 = Some b \<longrightarrow>
            fst (handler parse gen api_key ev) =
              \<lparr>statusCode = 200, headers = Some [(''Content-Type'', ''application/json'')],
               body = JSON_stringify (Object [(''transformedBase64'', optional_string (data b))])\<rparr>) \<and>
         ((\<forall>p\<in>set ps. inlineData p = None) \<longrightarrow>
            fst (handler parse gen api_key ev) = no_image) \<and>
         statusCode no_image = 500 \<and>
         body no_image = JSON_stringify (Object [(''error'',
           String ''The AI model did not return an image. Please try a different photo.'')]) \<and>
         no_image \<noteq> internal_error"
proof -
  have inv: "invoke_model gen key req = Inr (map_response ps)"
    using assms(11,12) by (simp add: invoke_model_def)
  have h: "fst (handler parse gen api_key ev) = map_response ps"
    using assms(1-10) handler_valid [of ev api_key key parse v req gen] inv by simp
  have first: "fst (handler parse gen api_key ev) =
      \<lparr>statusCode = 200, headers = Some [(''Content-Type'', ''application/json'')],
       body = JSON_stringify (Object [(''transformedBase64'', optional_string (data b))])\<rparr>"
    if "ps = pre @ p0 # rest" "\<forall>p\<in>set pre. inlineData p = None" "inlineData p0 = Some b"
    using that h scan_parts_first [of pre p0 b rest]
    by (simp add: map_response_def success_def)
  have none: "fst (handler parse gen api_key ev) = no_image"
    if "\<forall>p\<in>set ps. inlineData p = None"
    using that h scan_parts_none [of ps] by (simp add: map_response_def)
  have texts: "statusCode no_image = 500 \<and>
         body no_image = JSON_stringify (Object [(''error'',
           String ''The AI model did not return an image. Please try a different photo.'')]) \<and>
         no_image \<noteq> internal_error"
    by (simp add: no_image_def internal_error_def error_response_def)
  from first none texts show ?thesis by blast
qed

theorem response_mapping_first_inline_part_witness:
  "fst (handler sample_parse sample_gen (Some sample_key) (post lofi_text)) =
     \<lparr>statusCode = 200, headers = Some [(''Content-Type'', ''application/json'')],
      body = JSON_stringify (Object [(''transformedBase64'', String ''BBBB'')])\<rparr> \<and>
   fst (handler sample_parse (\<lambda>k r. Inr (answer [text_part ''Sorry'', text_part ''no image'']))
     (Some sample_key) (post lofi_text)) =
     \<lparr>statusCode = 500, headers = None,
      body = JSON_stringify (Object [(''error'',
        String ''The AI model did not return an image. Please try a different photo.'')])\<rparr>"
proof -
  let ?req = "build_request (String ''AAAA'') (String ''image/png'') (String ''lofi'')"
  let ?ps = "[text_part ''Here you go'', image_part ''BBBB'', image_part ''CCCC'']"
  let ?qs = "[text_part ''Sorry'', text_part ''no image'']"
  have p: "sample_parse (body_text (post lofi_text)) = Inr lofi_value"
    by (simp add: post_def body_text_def sample_parse_def parse_texts_def
        lofi_text_def bogus_text_def style_only_text_def)
  have v: "lofi_value \<noteq> Null" "lofi_value \<noteq> Undefined"
    "truthy (get_prop lofi_value ''base64ImageData'')" "truthy (get_prop lofi_value ''mimeType'')"
    "truthy (get_prop lofi_value ''style'')"
    "?req = build_request (get_prop lofi_value ''base64ImageData'')
       (get_prop lofi_value ''mimeType'') (get_prop lofi_value ''style'')"
    by (simp_all add: lofi_value_def)
  have m: "httpMethod (post lofi_text) = ''POST''" "sample_key \<noteq> []"
    by (simp_all add: post_def sample_key_def)
  have a: "fst (handler sample_parse sample_gen (Some sample_key) (post lofi_text)) =
     \<lparr>statusCode = 200, headers = Some [(''Content-Type'', ''application/json'')],
      body = JSON_stringify (Object [(''transformedBase64'', String ''BBBB'')])\<rparr>"
    using response_mapping_first_inline_part
      [of "post lofi_text" "Some sample_key" sample_key sample_parse lofi_value ?req sample_gen
          "answer ?ps" ?ps "[text_part ''Here you go'']" "image_part ''BBBB''" "[image_part ''CCCC'']"
          "\<lparr>data = Some ''BBBB'', blob_mimeType = Some ''image/png''\<rparr>"] p v m
    by (simp add: sample_gen_def answer_def response_parts_def text_part_def image_part_def
        optional_string_def)
  have b: "fst (handler sample_parse (\<lambda>k r. Inr (answer ?qs)) (Some sample_key) (post lofi_text)) =
     \<lparr>statusCode = 500, headers = None,
      body = JSON_stringify (Object [(''error'',
        String ''The AI model did not return an image. Please try a different photo.'')])\<rparr>"
    using response_mapping_first_inline_part
      [of "post lofi_text" "Some sample_key" sample_key sample_parse lofi_value ?req
          "\<lambda>k r. Inr (answer ?qs)" "answer ?qs" ?qs] p v m
    by (simp add: answer_def response_parts_def text_part_def no_image_def error_response_def)
  from a b show ?thesis by simp
qed

text \<open>
  Claim C10. A \<^verbatim>\<open>POST\<close> request that passes the presence check calls the external model
  exactly once, with the image data and media type of the body and with the lofi
  template when \<^verbatim>\<open>style\<close> is the text \<^verbatim>\<open>lofi\<close> and the cutout template for every other
  truthy \<^verbatim>\<open>style\<close>; the two templates differ, and which one is sent depends on nothing
  but whether \<^verbatim>\<open>style\<close> equals \<^verbatim>\<open>lofi\<close>.
\<close>

theorem style_selects_template:
  assumes "httpMethod ev = ''POST''" "api_key = Some key" "key \<noteq> []"
    "parse (body_text ev) = Inr v" "v \<noteq> Null" "v \<noteq> Undefined"
    "truthy (get_prop v ''base64ImageData'')" "truthy (get_prop v ''mimeType'')"
    "truthy (get_prop v ''style'')"
    "req = build_request (get_prop v ''base64ImageData'') (get_prop v ''mimeType'') (get_prop v ''style'')"
  shows "model_calls (snd (handler parse gen api_key ev)) = [(key, req)] \<and>
         prompt_text req = (if get_prop v ''style'' = String ''lofi'' then LOFI_PROMPT else CUTOUT_PROMPT) \<and>
         inline_data req = get_prop v ''base64ImageData'' \<and>
         inline_mimeType req = get_prop v ''mimeType'' \<and>
         LOFI_PROMPT \<noteq> CUTOUT_PROMPT"
proof -
  have "model_calls (snd (handler parse gen api_key ev)) = [(key, req)]"
    using assms handler_valid [of ev api_key key parse v req gen]
    by (simp split: sum.split)
  moreover have "prompt_text req =
      (if get_prop v ''style'' = String ''lofi'' then LOFI_PROMPT else CUTOUT_PROMPT)"
    "inline_data req = get_prop v ''base64ImageData''"
    "inline_mimeType req = get_prop v ''mimeType''"
    using assms(10) by (simp_all add: build_request_def)
  ultimately show ?thesis using prompts_differ by simp
qed

theorem style_selects_template_witness:
  "model_calls (snd (handler sample_parse sample_gen (Some sample_key) (post lofi_text))) =
     [(sample_key, build_request (String ''AAAA'') (String ''image/png'') (String ''lofi''))] \<and>
   prompt_text (build_request (String ''AAAA'') (String ''image/png'') (String ''lofi'')) = LOFI_PROMPT \<and>
   model_calls (snd (handler sample_parse sample_gen (Some sample_key) (post bogus_text))) =
     [(sample_key, build_request (String ''AAAA'') (String ''image/png'') (String ''bogus''))] \<and>
   prompt_text (build_request (String ''AAAA'') (String ''image/png'') (String ''bogus'')) = CUTOUT_PROMPT"
proof -
  have p: "sample_parse (body_text (post lofi_text)) = Inr lofi_value"
    "sample_parse (body_text (post bogus_text)) = Inr bogus_value"
    by (simp_all add: post_def body_text_def sample_parse_def parse_texts_def
        lofi_text_def bogus_text_def style_only_text_def)
  have m: "httpMethod (post lofi_text) = ''POST''" "httpMethod (post bogus_text) = ''POST''"
    "sample_key \<noteq> []"
    by (simp_all add: post_def sample_key_def)
  have a: "model_calls (snd (handler sample_parse sample_gen (Some sample_key) (post lofi_text))) =
     [(sample_key, build_request (String ''AAAA'') (String ''image/png'') (String ''lofi''))] \<and>
   prompt_text (build_request (String ''AAAA'') (String ''image/png'') (String ''lofi'')) = LOFI_PROMPT"
    using style_selects_template
      [of "post lofi_text" "Some sample_key" sample_key sample_parse lofi_value
          "build_request (String ''AAAA'') (String ''image/png'') (String ''lofi'')" sample_gen] p m
    by (simp add: lofi_value_def)
  have b: "model_calls (snd (handler sample_parse sample_gen (Some sample_key) (post bogus_text))) =
     [(sample_key, build_request (String ''AAAA'') (String ''image/png'') (String ''bogus''))] \<and>
   prompt_text (build_request (String ''AAAA'') (String ''image/png'') (String ''bogus'')) = CUTOUT_PROMPT"
    using style_selects_template
      [of "post bogus_text" "Some sample_key" sample_key sample_parse bogus_value
          "build_request (String ''AAAA'') (String ''image/png'') (String ''bogus'')" sample_gen] p m
    by (simp add: bogus_value_def)
  from a b show ?thesis by simp
qed

text \<open>
  Claim C1 says that a body whose \<^verbatim>\<open>style\<close> is present but is neither \<^verbatim>\<open>lofi\<close> nor
  \<^verbatim>\<open>cutout\<close> is answered with status 400 and no call of the model. The request with
  \<^verbatim>\<open>style\<close> set to \<^verbatim>\<open>bogus\<close> and both image fields present is answered with status 200
  after one call of the model.
\<close>

theorem unsupported_style_rejected_counterexample:
  "statusCode (fst (handler sample_parse sample_gen (Some sample_key) (post bogus_text))) = 200 \<and>
   length (model_calls (snd (handler sample_parse sample_gen (Some sample_key) (post bogus_text)))) = 1 \<and>
   sample_parse (body_text (post bogus_text)) = Inr bogus_value \<and>
   get_prop bogus_value ''style'' = String ''bogus''"
  by (simp add: handler_def sample_parse_def sample_gen_def sample_key_def post_def bogus_text_def
     bogus_value_def parse_texts_def try_block_def body_text_def invoke_model_def
     answer_def response_parts_def map_response_def text_part_def image_part_def success_def)

text \<open>
  Claim C1, as the handler has it. For a \<^verbatim>\<open>POST\<close> request with the credential set, a body
  that parses and a \<^verbatim>\<open>style\<close> that is present (truthy) but is neither \<^verbatim>\<open>lofi\<close> nor
  \<^verbatim>\<open>cutout\<close>: when the image data or the media type is missing the response is status
  400 with the message about missing data and the model is not called; when both are
  there the style is not checked against the supported set, the model is called once
  with the cutout template, and the status is not 400.
\<close>

theorem unsupported_style_treated_as_cutout:
  assumes "httpMethod ev = ''POST''" "api_key = Some key" "key \<noteq> []"
    "parse (body_text ev) = Inr v" "v \<noteq> Null" "v \<noteq> Undefined"
    "truthy (get_prop v ''style'')"
    "get_prop v ''style'' \<noteq> String ''lofi''" "get_prop v ''style'' \<noteq> String ''cutout''"
    "req = build_request (get_prop v ''base64ImageData'') (get_prop v ''mimeType'') (get_prop v ''style'')"
  shows "(\<not> truthy (get_prop v ''base64ImageData'') \<or> \<not> truthy (get_prop v ''mimeType'') \<longrightarrow>
            handler parse gen api_key ev = (missing_fields, [ReadEnv, ParseJSON (body_text ev)]) \<and>
            model_calls (snd (handler parse gen api_key ev)) = []) \<and>
         (truthy (get_prop v ''base64ImageData'') \<and> truthy (get_prop v ''mimeType'') \<longrightarrow>
            model_calls (snd (handler parse gen api_key ev)) = [(key, req)] \<and>
            prompt_text req = CUTOUT_PROMPT \<and>
            statusCode (fst (handler parse gen api_key ev)) \<noteq> 400) \<and>
         statusCode missing_fields = 400 \<and>
         body missing_fields = JSON_stringify (Object [(''error'',
           String ''Missing required image data or style.'')])"
proof -
  have miss: "handler parse gen api_key ev = (missing_fields, [ReadEnv, ParseJSON (body_text ev)]) \<and>
            model_calls (snd (handler parse gen api_key ev)) = []"
    if "\<not> truthy (get_prop v ''base64ImageData'') \<or> \<not> truthy (get_prop v ''mimeType'')"
  proof -
    have "try_block parse gen key ev = (Inr missing_fields, [ParseJSON (body_text ev)])"
      using that assms(4-6) try_block_missing [of parse ev v gen key] by blast
    then show ?thesis using assms(1-3) by (simp add: handler_try)
  qed
  have call: "model_calls (snd (handler parse gen api_key ev)) = [(key, req)] \<and>
            prompt_text req = CUTOUT_PROMPT \<and>
            statusCode (fst (handler parse gen api_key ev)) \<noteq> 400"
    if "truthy (get_prop v ''base64ImageData'') \<and> truthy (get_prop v ''mimeType'')"
  proof -
    have h: "handler parse gen api_key ev =
     (case invoke_model gen key req of
        Inr r \<Rightarrow> (r, [ReadEnv, ParseJSON (body_text ev), GenerateContent key req])
      | Inl e \<Rightarrow>
          (internal_error,
           [ReadEnv, ParseJSON (body_text ev), GenerateContent key req, ConsoleError e]))"
      using that assms handler_valid [of ev api_key key parse v req gen] by simp
    have "model_calls (snd (handler parse gen api_key ev)) = [(key, req)]"
      by (simp add: h split: sum.split)
    moreover have "prompt_text req = CUTOUT_PROMPT"
      using assms(8,10) by (simp add: build_request_def)
    moreover have "statusCode (fst (handler parse gen api_key ev)) \<noteq> 400"
    proof (cases "invoke_model gen key req")
      case (Inl e)
      then show ?thesis by (simp add: h internal_error_def error_response_def)
    next
      case (Inr r)
      then show ?thesis using invoke_model_status [OF Inr] by (auto simp add: h)
    qed
    ultimately show ?thesis by simp
  qed
  have "statusCode missing_fields = 400 \<and>
         body missing_fields = JSON_stringify (Object [(''error'',
           String ''Missing required image data or style.'')])"
    by (simp add: missing_fields_def error_response_def)
  with miss call show ?thesis by blast
qed

theorem unsupported_style_treated_as_cutout_witness:
  "handler sample_parse sample_gen (Some sample_key) (post style_only_text) =
     (\<lparr>statusCode = 400, headers = None,
       body = JSON_stringify (Object [(''error'', String ''Missing required image data or style.'')])\<rparr>,
      [ReadEnv, ParseJSON style_only_text]) \<and>
   model_calls (snd (handler sample_parse sample_gen (Some sample_key) (post bogus_text))) =
     [(sample_key, build_request (String ''AAAA'') (String ''image/png'') (String ''bogus''))] \<and>
   prompt_text (build_request (String ''AAAA'') (String ''image/png'') (String ''bogus'')) = CUTOUT_PROMPT \<and>
   statusCode (fst (handler sample_parse sample_gen (Some sample_key) (post bogus_text))) \<noteq> 400"
proof -
  have p: "sample_parse (body_text (post style_only_text)) = Inr style_only_value"
    "sample_parse (body_text (post bogus_text)) = Inr bogus_value"
    by (simp_all add: post_def body_text_def sample_parse_def parse_texts_def
        lofi_text_def bogus_text_def style_only_text_def)
  have m: "httpMethod (post style_only_text) = ''POST''" "httpMethod (post bogus_text) = ''POST''"
    "sample_key \<noteq> []"
    by (simp_all add: post_def sample_key_def)
  have bt: "body_text (post style_only_text) = style_only_text"
    by (simp add: post_def body_text_def style_only_text_def)
  have a: "handler sample_parse sample_gen (Some sample_key) (post style_only_text) =
     (\<lparr>statusCode = 400, headers = None,
       body = JSON_stringify (Object [(''error'', String ''Missing required image data or style.'')])\<rparr>,
      [ReadEnv, ParseJSON style_only_text])"
    using unsupported_style_treated_as_cutout
      [of "post style_only_text" "Some sample_key" sample_key sample_parse style_only_value
          "build_request Undefined Undefined (String ''bogus'')" sample_gen] p m bt
    by (simp add: style_only_value_def missing_fields_def error_response_def)
  have b: "model_calls (snd (handler sample_parse sample_gen (Some sample_key) (post bogus_text))) =
     [(sample_key, build_request (String ''AAAA'') (String ''image/png'') (String ''bogus''))] \<and>
   prompt_text (build_request (String ''AAAA'') (String ''image/png'') (String ''bogus'')) = CUTOUT_PROMPT \<and>
   statusCode (fst (handler sample_parse sample_gen (Some sample_key) (post bogus_text))) \<noteq> 400"
    using unsupported_style_treated_as_cutout
      [of "post bogus_text" "Some sample_key" sample_key sample_parse bogus_value
          "build_request (String ''AAAA'') (String ''image/png'') (String ''bogus'')" sample_gen] p m
    by (simp add: bogus_value_def)
  from a b show ?thesis by simp
qed

text \<open>
  Claim C7 says that every incomplete or malformed body, a body that is not JSON
  included, is answered with status 400. The body \<^verbatim>\<open>not json\<close> makes \<^verbatim>\<open>JSON.parse\<close> throw
  inside the \<^verbatim>\<open>try\<close> block, and the \<^verbatim>\<open>catch\<close> answers with the generic status 500.
\<close>

theorem unparseable_body_400_counterexample:
  "sample_parse (body_text (post ''not json'')) = Inl (Error ''SyntaxError: not valid JSON'') \<and>
   handler sample_parse sample_gen (Some sample_key) (post ''not json'') =
     (\<lparr>statusCode = 500, headers = None,
       body = JSON_stringify (Object [(''error'',
         String ''An internal error occurred while transforming the image.'')])\<rparr>,
      [ReadEnv, ParseJSON ''not json'', ConsoleError (Error ''SyntaxError: not valid JSON'')])"
  by (simp add: handler_def sample_parse_def sample_key_def post_def parse_texts_def try_block_def
      body_text_def internal_error_def error_response_def bogus_text_def lofi_text_def
      style_only_text_def)

text \<open>
  Claim C7, as the handler has it. For a \<^verbatim>\<open>POST\<close> request with the credential set: a body
  that parses to a value other than \<^verbatim>\<open>null\<close> in which the image data, the media type or
  the style is missing or falsy is answered with status 400 and the one message
  \<^verbatim>\<open>Missing required image data or style.\<close> (an absent or empty body is read as
  \<^verbatim>\<open>{}\<close>, so it is such a body); a body that does not parse, or that parses to
  \<^verbatim>\<open>null\<close>, is answered with the generic status 500.
\<close>

theorem incomplete_body_400_unparseable_body_500:
  assumes "httpMethod ev = ''POST''" "api_key = Some key" "key \<noteq> []"
  shows "(parse (body_text ev) = Inr v \<and> v \<noteq> Null \<and> v \<noteq> Undefined \<and>
          (\<not> truthy (get_prop v ''base64ImageData'') \<or> \<not> truthy (get_prop v ''mimeType'') \<or>
           \<not> truthy (get_prop v ''style'')) \<longrightarrow>
            handler parse gen api_key ev = (missing_fields, [ReadEnv, ParseJSON (body_text ev)])) \<and>
         (parse (body_text ev) = Inl e \<longrightarrow>
            handler parse gen api_key ev =
              (internal_error, [ReadEnv, ParseJSON (body_text ev), ConsoleError e])) \<and>
         (parse (body_text ev) = Inr Null \<longrightarrow> fst (handler parse gen api_key ev) = internal_error) \<and>
         (event_body ev = None \<or> event_body ev = Some [] \<longrightarrow> body_text ev = ''{}'') \<and>
         statusCode missing_fields = 400 \<and>
         body missing_fields = JSON_stringify (Object [(''error'',
           String ''Missing required image data or style.'')]) \<and>
         statusCode internal_error = 500"
proof -
  have a: "handler parse gen api_key ev = (missing_fields, [ReadEnv, ParseJSON (body_text ev)])"
    if "parse (body_text ev) = Inr v \<and> v \<noteq> Null \<and> v \<noteq> Undefined \<and>
          (\<not> truthy (get_prop v ''base64ImageData'') \<or> \<not> truthy (get_prop v ''mimeType'') \<or>
           \<not> truthy (get_prop v ''style''))"
  proof -
    have "try_block parse gen key ev = (Inr missing_fields, [ParseJSON (body_text ev)])"
      using that try_block_missing [of parse ev v gen key] by blast
    then show ?thesis using assms by (simp add: handler_try)
  qed
  have b: "handler parse gen api_key ev =
      (internal_error, [ReadEnv, ParseJSON (body_text ev), ConsoleError e])"
    if "parse (body_text ev) = Inl e"
    using that assms try_block_throws [of parse ev e gen key] by (simp add: handler_try)
  have c: "fst (handler parse gen api_key ev) = internal_error"
    if "parse (body_text ev) = Inr Null"
    using that assms try_block_null [of parse ev gen key] by (simp add: handler_try)
  have d: "body_text ev = ''{}''" if "event_body ev = None \<or> event_body ev = Some []"
    using that by (auto simp: body_text_def)
  have t: "statusCode missing_fields = 400 \<and>
         body missing_fields = JSON_stringify (Object [(''error'',
           String ''Missing required image data or style.'')]) \<and>
         statusCode internal_error = 500"
    by (simp add: missing_fields_def internal_error_def error_response_def)
  from a b c d t show ?thesis by blast
qed

theorem incomplete_body_400_unparseable_body_500_witness:
  "handler sample_parse sample_gen (Some sample_key) \<lparr>httpMethod = ''POST'', event_body = None\<rparr> =
     (\<lparr>statusCode = 400, headers = None,
       body = JSON_stringify (Object [(''error'', String ''Missing required image data or style.'')])\<rparr>,
      [ReadEnv, ParseJSON ''{}'']) \<and>
   handler sample_parse sample_gen (Some sample_key) (post ''not json'') =
     (\<lparr>statusCode = 500, headers = None,
       body = JSON_stringify (Object [(''error'',
         String ''An internal error occurred while transforming the image.'')])\<rparr>,
      [ReadEnv, ParseJSON ''not json'', ConsoleError (Error ''SyntaxError: not valid JSON'')]) \<and>
   fst (handler sample_parse sample_gen (Some sample_key) (post ''null'')) =
     \<lparr>statusCode = 500, headers = None,
       body = JSON_stringify (Object [(''error'',
         String ''An internal error occurred while transforming the image.'')])\<rparr>"
proof -
  have k: "sample_key \<noteq> []" by (simp add: sample_key_def)
  have bt: "body_text \<lparr>httpMethod = ''POST'', event_body = None\<rparr> = ''{}''"
    "body_text (post ''not json'') = ''not json''" "body_text (post ''null'') = ''null''"
    by (simp_all add: body_text_def post_def)
  have p: "sample_parse ''{}'' = Inr (Object [])"
    "sample_parse ''not json'' = Inl (Error ''SyntaxError: not valid JSON'')"
    "sample_parse ''null'' = Inr Null"
    by (simp_all add: sample_parse_def parse_texts_def bogus_text_def lofi_text_def style_only_text_def)
  have a: "handler sample_parse sample_gen (Some sample_key) \<lparr>httpMethod = ''POST'', event_body = None\<rparr> =
     (\<lparr>statusCode = 400, headers = None,
       body = JSON_stringify (Object [(''error'', String ''Missing required image data or style.'')])\<rparr>,
      [ReadEnv, ParseJSON ''{}''])"
    using incomplete_body_400_unparseable_body_500
      [of "\<lparr>httpMethod = ''POST'', event_body = None\<rparr>" "Some sample_key" sample_key
          sample_parse "Object []" sample_gen] k bt p
    by (simp add: missing_fields_def error_response_def)
  have b: "handler sample_parse sample_gen (Some sample_key) (post ''not json'') =
     (\<lparr>statusCode = 500, headers = None,
       body = JSON_stringify (Object [(''error'',
         String ''An internal error occurred while transforming the image.'')])\<rparr>,
      [ReadEnv, ParseJSON ''not json'', ConsoleError (Error ''SyntaxError: not valid JSON'')])"
    using incomplete_body_400_unparseable_body_500
      [of "post ''not json''" "Some sample_key" sample_key sample_parse Null sample_gen
          "Error ''SyntaxError: not valid JSON''"] k bt p
    by (simp add: internal_error_def error_response_def post_def)
  have c: "fst (handler sample_parse sample_gen (Some sample_key) (post ''null'')) =
     \<lparr>statusCode = 500, headers = None,
       body = JSON_stringify (Object [(''error'',
         String ''An internal error occurred while transforming the image.'')])\<rparr>"
    using incomplete_body_400_unparseable_body_500
      [of "post ''null''" "Some sample_key" sample_key sample_parse Null sample_gen] k bt p
    by (simp add: internal_error_def error_response_def post_def)
  from a b c show ?thesis by simp
qed

lemma transform_try_ok:
  assumes "fetch (transform_request b m s) = Inr response" "ok response"
    "json response = Inr result" "result \<noteq> Null" "result \<noteq> Undefined"
  shows "transform_try fetch to_string b m s =
     (if truthy (get_prop result ''transformedBase64'')
      then Inr (get_prop result ''transformedBase64'') else Inr Null)"
  using assms by (simp add: transform_try_def Let_def)

lemma transform_try_not_ok:
  assumes "fetch (transform_request b m s) = Inr response" "\<not> ok response"
  shows "\<exists>msg. transform_try fetch to_string b m s = Inl (Error msg)"
  using assms by (simp add: transform_try_def Let_def TypeError_def)

lemma transform_try_message:
  assumes "fetch (transform_request b m s) = Inr response" "\<not> ok response"
    "json response = Inl e \<or>
     json response = Inr d \<and> d \<noteq> Null \<and> d \<noteq> Undefined \<and>
     (\<not> truthy (get_prop d ''error'') \<or> get_prop d ''error'' = String errtext)"
  shows "\<exists>msg. transform_try fetch to_string b m s = Inl (Error msg) \<and> msg \<noteq> []"
  using assms
  by (auto simp: transform_try_def Let_def parse_failure_def error_message_def)

lemma transform_try_value:
  "transform_try fetch to_string b m s = Inr v \<Longrightarrow> v = Null \<or> truthy v"
  by (auto simp: transform_try_def Let_def split: sum.splits if_splits)

lemma transform_try_ok_unreadable:
  assumes "fetch (transform_request b m s) = Inr response" "ok response"
    "json response = Inl e \<or> json response = Inr Null \<or> json response = Inr Undefined"
  shows "\<exists>err. transform_try fetch to_string b m s = Inl err"
  using assms by (auto simp: transform_try_def Let_def)

lemma transform_try_fetch_fails:
  assumes "fetch (transform_request b m s) = Inl e"
  shows "transform_try fetch to_string b m s = Inl e"
  using assms by (simp add: transform_try_def)

lemma transformImage_raises:
  "transform_try fetch to_string b m s = Inl err \<Longrightarrow>
   \<exists>msg. transformImage fetch to_string b m s = Inl (Error msg)"
  by (cases err) (simp_all add: transformImage_def)

text \<open>
  Claim C2, as the client has it. For every image, style and settled \<^verbatim>\<open>fetch\<close>,
  \<^verbatim>\<open>transformImage\<close> ends in exactly one of three ways: it returns a truthy
  \<^verbatim>\<open>transformedBase64\<close> (a string that is not empty), it returns \<^verbatim>\<open>null\<close>, or it throws
  one \<^verbatim>\<open>Error\<close>. A success response whose body parses to a value other than \<^verbatim>\<open>null\<close>
  returns the body's \<^verbatim>\<open>transformedBase64\<close> when that is truthy and \<^verbatim>\<open>null\<close> when it is
  missing or falsy; a success response whose body does not parse, or parses to \<^verbatim>\<open>null\<close>,
  throws an \<^verbatim>\<open>Error\<close>, and so does a \<^verbatim>\<open>fetch\<close> that fails. A response that is not a
  success always throws an \<^verbatim>\<open>Error\<close>, and its message is not empty when the body does
  not parse or when the body's \<^verbatim>\<open>error\<close> is a string or is missing.
\<close>

theorem transformImage_image_null_or_error:
  "(case transformImage fetch to_string b m s of
      Inr v \<Rightarrow> v = Null \<or> truthy v
    | Inl e \<Rightarrow> (\<exists>msg. e = Error msg)) \<and>
   (fetch (transform_request b m s) = Inr response \<and> ok response \<and>
    json response = Inr result \<and> result \<noteq> Null \<and> result \<noteq> Undefined \<longrightarrow>
      transformImage fetch to_string b m s =
        (if truthy (get_prop result ''transformedBase64'')
         then Inr (get_prop result ''transformedBase64'') else Inr Null)) \<and>
   (fetch (transform_request b m s) = Inr response \<and> ok response \<and>
    (json response = Inl e \<or> json response = Inr Null \<or> json response = Inr Undefined) \<longrightarrow>
      (\<exists>msg. transformImage fetch to_string b m s = Inl (Error msg))) \<and>
   (fetch (transform_request b m s) = Inl e \<longrightarrow>
      (\<exists>msg. transformImage fetch to_string b m s = Inl (Error msg))) \<and>
   (fetch (transform_request b m s) = Inr response \<and> \<not> ok response \<longrightarrow>
      (\<exists>msg. transformImage fetch to_string b m s = Inl (Error msg))) \<and>
   (fetch (transform_request b m s) = Inr response \<and> \<not> ok response \<and>
    (json response = Inl e \<or>
     json response = Inr d \<and> d \<noteq> Null \<and> d \<noteq> Undefined \<and>
     (\<not> truthy (get_prop d ''error'') \<or> get_prop d ''error'' = String errtext)) \<longrightarrow>
      (\<exists>msg. transformImage fetch to_string b m s = Inl (Error msg) \<and> msg \<noteq> [])) \<and>
   (truthy (String t) \<longrightarrow> t \<noteq> [])"
proof -
  have a: "case transformImage fetch to_string b m s of
      Inr v \<Rightarrow> v = Null \<or> truthy v
    | Inl e \<Rightarrow> (\<exists>msg. e = Error msg)"
    using transform_try_value [of fetch to_string b m s]
    by (auto simp: transformImage_def split: sum.splits exn.splits)
  have b: "transformImage fetch to_string b m s =
        (if truthy (get_prop result ''transformedBase64'')
         then Inr (get_prop result ''transformedBase64'') else Inr Null)"
    if "fetch (transform_request b m s) = Inr response \<and> ok response \<and>
    json response = Inr result \<and> result \<noteq> Null \<and> result \<noteq> Undefined"
    using that transform_try_ok [of fetch b m s response result to_string]
    by (simp add: transformImage_def)
  have u: "\<exists>msg. transformImage fetch to_string b m s = Inl (Error msg)"
    if "fetch (transform_request b m s) = Inr response \<and> ok response \<and>
    (json response = Inl e \<or> json response = Inr Null \<or> json response = Inr Undefined)"
    using that transform_try_ok_unreadable [of fetch b m s response e to_string]
      transformImage_raises [of fetch to_string b m s]
    by blast
  have f: "\<exists>msg. transformImage fetch to_string b m s = Inl (Error msg)"
    if "fetch (transform_request b m s) = Inl e"
    using that transform_try_fetch_fails [of fetch b m s e to_string]
      transformImage_raises [of fetch to_string b m s e]
    by simp
  have c: "\<exists>msg. transformImage fetch to_string b m s = Inl (Error msg)"
    if "fetch (transform_request b m s) = Inr response \<and> \<not> ok response"
    using that transform_try_not_ok [of fetch b m s response to_string]
    by (auto simp: transformImage_def)
  have d: "\<exists>msg. transformImage fetch to_string b m s = Inl (Error msg) \<and> msg \<noteq> []"
    if "fetch (transform_request b m s) = Inr response \<and> \<not> ok response \<and>
    (json response = Inl e \<or>
     json response = Inr d \<and> d \<noteq> Null \<and> d \<noteq> Undefined \<and>
     (\<not> truthy (get_prop d ''error'') \<or> get_prop d ''error'' = String errtext))"
    using that transform_try_message [of fetch b m s response e d errtext to_string]
    by (auto simp: transformImage_def)
  from a b u f c d show ?thesis by simp
qed

text \<open>
  Claim C2 says that \<^verbatim>\<open>transformImage\<close> either returns an image that is not empty or
  throws, and that a success response without image data makes it throw. For the
  success response with the body \<^verbatim>\<open>{}\<close> it returns \<^verbatim>\<open>null\<close>: no image and no error.
\<close>

theorem transformImage_returns_null_counterexample:
  "transformImage (\<lambda>r. Inr \<lparr>ok = True, status = 200, json = Inr (Object [])\<rparr>)
     (\<lambda>v. ''[object Object]'') ''AAAA'' ''image/png'' lofi = Inr Null"
  by (simp add: transformImage_def transform_try_def)

theorem transformImage_image_null_or_error_witness:
  "transformImage (\<lambda>r. Inr \<lparr>ok = True, status = 200,
       json = Inr (Object [(''transformedBase64'', String ''BBBB'')])\<rparr>)
     (\<lambda>v. ''[object Object]'') ''AAAA'' ''image/png'' lofi = Inr (String ''BBBB'') \<and>
   transformImage (\<lambda>r. Inr \<lparr>ok = True, status = 200,
       json = Inr (Object [(''transformedBase64'', String '''')])\<rparr>)
     (\<lambda>v. ''[object Object]'') ''AAAA'' ''image/png'' lofi = Inr Null \<and>
   (\<exists>msg. transformImage (\<lambda>r. Inr \<lparr>ok = False, status = 500,
       json = Inr (Object [(''error'', String ''An internal error occurred while transforming the image.'')])\<rparr>)
     (\<lambda>v. ''[object Object]'') ''AAAA'' ''image/png'' cutout = Inl (Error msg) \<and> msg \<noteq> []) \<and>
   (\<exists>msg. transformImage (\<lambda>r. Inr \<lparr>ok = True, status = 200, json = Inr Null\<rparr>)
     (\<lambda>v. ''[object Object]'') ''AAAA'' ''image/png'' lofi = Inl (Error msg))"
proof -
  let ?ts = "\<lambda>v::js_value. ''[object Object]''"
  let ?r1 = "\<lparr>ok = True, status = 200, json = Inr (Object [(''transformedBase64'', String ''BBBB'')])\<rparr>"
  let ?r2 = "\<lparr>ok = True, status = 200, json = Inr (Object [(''transformedBase64'', String '''')])\<rparr>"
  let ?r3 = "\<lparr>ok = False, status = 500,
       json = Inr (Object [(''error'', String ''An internal error occurred while transforming the image.'')])\<rparr>"
  have a: "transformImage (\<lambda>r. Inr ?r1) ?ts ''AAAA'' ''image/png'' lofi = Inr (String ''BBBB'')"
    using transformImage_image_null_or_error
      [of "\<lambda>r. Inr ?r1" ?ts "''AAAA''" "''image/png''" lofi ?r1
          "Object [(''transformedBase64'', String ''BBBB'')]"]
    by simp
  have b: "transformImage (\<lambda>r. Inr ?r2) ?ts ''AAAA'' ''image/png'' lofi = Inr Null"
    using transformImage_image_null_or_error
      [of "\<lambda>r. Inr ?r2" ?ts "''AAAA''" "''image/png''" lofi ?r2
          "Object [(''transformedBase64'', String '''')]"]
    by simp
  have c: "\<exists>msg. transformImage (\<lambda>r. Inr ?r3) ?ts ''AAAA'' ''image/png'' cutout = Inl (Error msg) \<and>
      msg \<noteq> []"
    using transformImage_image_null_or_error
      [of "\<lambda>r. Inr ?r3" ?ts "''AAAA''" "''image/png''" cutout ?r3 _ _
          "Object [(''error'', String ''An internal error occurred while transforming the image.'')]"
          "''An internal error occurred while transforming the image.''"]
    by simp
  have d: "\<exists>msg. transformImage (\<lambda>r. Inr \<lparr>ok = True, status = 200, json = Inr Null\<rparr>) ?ts
      ''AAAA'' ''image/png'' lofi = Inl (Error msg)"
    using transformImage_image_null_or_error
      [of "\<lambda>r. Inr \<lparr>ok = True, status = 200, json = Inr Null\<rparr>" ?ts "''AAAA''" "''image/png''" lofi
          "\<lparr>ok = True, status = 200, json = Inr Null\<rparr>"]
    by simp
  from a b c d show ?thesis by simp
qed

lemma split_str_absent: "c \<notin> set s \<Longrightarrow> split_str c s = (s, [])"
  by (induction s) auto

lemma split_str_at:
  "c \<notin> set a \<Longrightarrow> split_str c (a @ c # r) = (a, fst (split_str c r) # snd (split_str c r))"
  by (induction a) (auto split: prod.splits)

lemma split_comma_data_url:
  assumes "CHR '','' \<notin> set ty" "CHR '','' \<notin> set b64"
  shows "split_str CHR '','' (data_url ty b64) = (''data:'' @ ty @ '';base64'', [b64])"
proof -
  have "CHR '','' \<notin> set (''data:'' @ ty @ '';base64'')" using assms(1) by simp
  from split_str_at [OF this, of b64]
  show ?thesis using assms(2) by (simp add: data_url_def split_str_absent)
qed

lemma fst_split_str: "fst (split_str c s) = takeWhile (\<lambda>x. x \<noteq> c) s"
  by (induction s) (auto split: prod.splits)

lemma takeWhile_twice:
  "takeWhile P (takeWhile Q xs) = takeWhile (\<lambda>x. Q x \<and> P x) xs"
  by (induction xs) auto

lemma fileToBase64_Load:
  "fileToBase64 (Load result) =
     (case snd (split_str CHR '','' result) of
        [] \<Rightarrow> Rejected (Error ''Invalid file format'')
      | base64Part # _ \<Rightarrow>
          if fst (split_str CHR '','' result) = [] \<or> base64Part = []
          then Rejected (Error ''Invalid file format'')
          else
            (case snd (split_str CHR '':'' (fst (split_str CHR '','' result))) of
               [] \<Rightarrow> Pending
             | after_colon # _ \<Rightarrow>
                 Resolved \<lparr>base64 = base64Part,
                           mimeType = fst (split_str CHR '';'' after_colon)\<rparr>))"
  by (auto simp: fileToBase64_def split: prod.split list.split)


lemma after_colon_data_url:
  "snd (split_str CHR '':'' (''data:'' @ y)) =
     takeWhile (\<lambda>x. x \<noteq> CHR '':'') y # snd (split_str CHR '':'' y)"
proof -
  have "CHR '':'' \<notin> set ''data''" by simp
  from split_str_at [OF this, of y] show ?thesis by (simp add: fst_split_str)
qed

lemma cut_type:
  "takeWhile (\<lambda>x. x \<noteq> CHR '';'')
     (takeWhile (\<lambda>x. x \<noteq> CHR '':'') (takeWhile (\<lambda>x. x \<noteq> CHR '','') (ty @ '';base64''))) =
   takeWhile (\<lambda>x. x \<noteq> CHR '','' \<and> x \<noteq> CHR '':'' \<and> x \<noteq> CHR '';'') ty"
proof -
  have "takeWhile (\<lambda>x. x \<noteq> CHR '','' \<and> x \<noteq> CHR '':'' \<and> x \<noteq> CHR '';'') (ty @ CHR '';'' # ''base64'') =
      takeWhile (\<lambda>x. x \<noteq> CHR '','' \<and> x \<noteq> CHR '':'' \<and> x \<noteq> CHR '';'') ty"
    by (rule takeWhile_tail) simp
  then show ?thesis by (simp add: takeWhile_twice conj_ac)
qed


lemma fileToBase64_resolved_payload:
  assumes "CHR '','' \<notin> set ty" "CHR '','' \<notin> set b64"
  shows "fileToBase64 (Load (data_url ty b64)) =
     (if b64 = [] then Rejected (Error ''Invalid file format'')
      else Resolved \<lparr>base64 = b64,
        mimeType = takeWhile (\<lambda>x. x \<noteq> CHR '','' \<and> x \<noteq> CHR '':'' \<and> x \<noteq> CHR '';'') ty\<rparr>)"
proof -
  define y where "y = ty @ '';base64''"
  have s: "split_str CHR '','' (data_url ty b64) = (''data:'' @ y, [b64])"
    using assms split_comma_data_url by (simp add: y_def)
  have a: "snd (split_str CHR '':'' (''data:'' @ y)) =
      takeWhile (\<lambda>x. x \<noteq> CHR '':'') y # snd (split_str CHR '':'' y)"
    by (rule after_colon_data_url)
  have n: "takeWhile (\<lambda>x. x \<noteq> CHR '','') y = y"
    using assms(1) by (auto simp: y_def takeWhile_eq_all_conv)
  have c: "takeWhile (\<lambda>x. x \<noteq> CHR '';'') (takeWhile (\<lambda>x. x \<noteq> CHR '':'') y) =
      takeWhile (\<lambda>x. x \<noteq> CHR '','' \<and> x \<noteq> CHR '':'' \<and> x \<noteq> CHR '';'') ty"
    using cut_type [of ty] n by (simp add: y_def)
  show ?thesis
    unfolding fileToBase64_Load s fst_conv snd_conv a
    by (simp add: fst_split_str c)
qed





subsection \<open>The round trip of the encoding\<close>

lemma alphabet_length: "length base64_alphabet = 64"
  by (simp add: base64_alphabet_def)

lemma alphabet_distinct: "distinct base64_alphabet"
  by (simp add: base64_alphabet_def)

lemma alphabet_no_pad: "CHR ''='' \<notin> set base64_alphabet"
  by (simp add: base64_alphabet_def)

lemma alphabet_no_comma: "CHR '','' \<notin> set base64_alphabet"
  by (simp add: base64_alphabet_def)


lemma div_mul_add: "y < n \<Longrightarrow> (x * n + y) div n = (x::nat)"
  by simp

lemma mod_mul_add: "y < n \<Longrightarrow> (x * n + y) mod n = (y::nat)"
  by simp

lemma sextet_bounds:
  fixes a b c :: nat
  assumes "a < 256" "b < 256" "c < 256"
  shows "a div 4 < 64" "(a mod 4) * 16 < 64" "(a mod 4) * 16 + b div 16 < 64"
    "(b mod 16) * 4 < 64" "(b mod 16) * 4 + c div 64 < 64" "c mod 64 < 64"
proof -
  have q: "a div 4 < 64" "b div 16 < 16" "c div 64 < 4"
    using assms by (simp_all add: less_mult_imp_div_less)
  have r: "a mod 4 < 4" "b mod 16 < 16" by simp_all
  show "a div 4 < 64" by (rule q)
  show "(a mod 4) * 16 < 64" using r by linarith
  show "(a mod 4) * 16 + b div 16 < 64" using q r by linarith
  show "(b mod 16) * 4 < 64" using r by linarith
  show "(b mod 16) * 4 + c div 64 < 64" using q r by linarith
  show "c mod 64 < 64" by simp
qed

lemma octets_back:
  fixes a b c :: nat
  assumes "a < 256" "b < 256" "c < 256"
  shows "a div 4 * 4 + ((a mod 4) * 16) div 16 = a"
    "a div 4 * 4 + ((a mod 4) * 16 + b div 16) div 16 = a"
    "(((a mod 4) * 16 + b div 16) mod 16) * 16 + ((b mod 16) * 4) div 4 = b"
    "(((a mod 4) * 16 + b div 16) mod 16) * 16 + ((b mod 16) * 4 + c div 64) div 4 = b"
    "(((b mod 16) * 4 + c div 64) mod 4) * 64 + c mod 64 = c"
proof -
  have q: "b div 16 < 16" "c div 64 < 4"
    using assms by (simp_all add: less_mult_imp_div_less)
  show "a div 4 * 4 + ((a mod 4) * 16) div 16 = a" by simp
  show "a div 4 * 4 + ((a mod 4) * 16 + b div 16) div 16 = a"
    using q by (simp add: div_mul_add)
  show "(((a mod 4) * 16 + b div 16) mod 16) * 16 + ((b mod 16) * 4) div 4 = b"
    using q by (simp add: mod_mul_add)
  show "(((a mod 4) * 16 + b div 16) mod 16) * 16 + ((b mod 16) * 4 + c div 64) div 4 = b"
    using q by (simp add: mod_mul_add div_mul_add)
  show "(((b mod 16) * 4 + c div 64) mod 4) * 64 + c mod 64 = c"
    using q by (simp add: mod_mul_add)
qed


lemma position_nth: "distinct xs \<Longrightarrow> i < length xs \<Longrightarrow> position (xs ! i) xs = i"
proof (induction xs arbitrary: i)
  case Nil
  then show ?case by simp
next
  case (Cons x xs)
  then show ?case by (cases i) auto
qed

lemma char_sextet_inverse: "i < 64 \<Longrightarrow> char_sextet (sextet_char i) = i"
  by (simp add: char_sextet_def sextet_char_def position_nth alphabet_distinct alphabet_length)

lemma sextet_char_in: "i < 64 \<Longrightarrow> sextet_char i \<in> set base64_alphabet"
  by (simp add: sextet_char_def alphabet_length)

lemma sextet_char_not_pad: "i < 64 \<Longrightarrow> sextet_char i \<noteq> CHR ''=''"
  using sextet_char_in alphabet_no_pad by metis

lemma sextet_char_not_comma: "i < 64 \<Longrightarrow> CHR '','' \<noteq> sextet_char i"
  using sextet_char_in alphabet_no_comma by metis

lemma decode_encode_octets:
  "(\<forall>n\<in>set ns. n < 256) \<Longrightarrow> decode_octets (encode_octets ns) = ns"
proof (induction ns rule: encode_octets.induct)
  case 1
  then show ?case by simp
next
  case (2 a)
  then have a: "a < 256" by simp
  show ?case
    using sextet_bounds(1,2) [OF a a a] octets_back(1) [OF a a a]
    by (simp add: char_sextet_inverse)
next
  case (3 a b)
  then have a: "a < 256" and b: "b < 256" by simp_all
  show ?case
    using sextet_bounds(1,3,4) [OF a b b] octets_back(2,3) [OF a b b]
    by (simp add: char_sextet_inverse sextet_char_not_pad)
next
  case (4 a b c rest)
  then have a: "a < 256" and b: "b < 256" and c: "c < 256"
    and ih: "decode_octets (encode_octets rest) = rest"
    by simp_all
  show ?case
    using sextet_bounds(1,3,5,6) [OF a b c] octets_back(2,4,5) [OF a b c] ih
    by (simp add: char_sextet_inverse sextet_char_not_pad)
qed

lemma encode_octets_no_comma:
  "(\<forall>n\<in>set ns. n < 256) \<Longrightarrow> CHR '','' \<notin> set (encode_octets ns)"
proof (induction ns rule: encode_octets.induct)
  case 1
  then show ?case by simp
next
  case (2 a)
  then have a: "a < 256" by simp
  show ?case
    using sextet_bounds(1,2) [OF a a a] by (simp add: sextet_char_not_comma)
next
  case (3 a b)
  then have a: "a < 256" and b: "b < 256" by simp_all
  show ?case
    using sextet_bounds(1,3,4) [OF a b b] by (simp add: sextet_char_not_comma)
next
  case (4 a b c rest)
  then have a: "a < 256" and b: "b < 256" and c: "c < 256"
    and ih: "CHR '','' \<notin> set (encode_octets rest)"
    by simp_all
  show ?case
    using sextet_bounds(1,3,5,6) [OF a b c] ih by (simp add: sextet_char_not_comma)
qed

lemma encode_octets_empty: "encode_octets ns = [] \<longleftrightarrow> ns = []"
  by (induction ns rule: encode_octets.induct) simp_all

lemma octets_of_bytes: "\<forall>n\<in>set (map unat (bs :: byte list)). n < 256"
proof
  fix n assume "n \<in> set (map unat bs)"
  then obtain b :: byte where "n = unat b" by auto
  moreover have "unat b < 2 ^ LENGTH(8)" by (rule unsigned_less)
  ultimately show "n < 256" by simp
qed

lemma base64_decode_encode: "base64_decode (base64_encode bs) = bs"
proof -
  have "decode_octets (encode_octets (map unat bs)) = map unat bs"
    using octets_of_bytes by (rule decode_encode_octets)
  then show ?thesis
    by (simp add: base64_decode_def base64_encode_def map_idI)
qed

lemma base64_encode_no_comma: "CHR '','' \<notin> set (base64_encode bs)"
  unfolding base64_encode_def using octets_of_bytes by (rule encode_octets_no_comma)

lemma base64_encode_empty: "base64_encode bs = [] \<longleftrightarrow> bs = []"
  by (simp add: base64_encode_def encode_octets_empty)

text \<open>The encoder yields no payload for an empty file: nothing follows the comma of its
  data URL (a reader may also deliver just \<^verbatim>\<open>data:\<close>), and the promise is rejected.\<close>

lemma empty_file_rejected:
  "fileToBase64 (Load (readAsDataURL \<lparr>file_type = ''image/png'', file_bytes = []\<rparr>)) =
     Rejected (Error ''Invalid file format'') \<and>
   readAsDataURL \<lparr>file_type = ''image/png'', file_bytes = []\<rparr> = ''data:image/png;base64,'' \<and>
   fileToBase64 (Load ''data:'') = Rejected (Error ''Invalid file format'')"
  by (simp add: fileToBase64_def readAsDataURL_def data_url_def base64_encode_def)

lemma png_signature_encoded:
  "base64_encode [0x89, 0x50, 0x4E, 0x47, 0x0D, 0x0A, 0x1A, 0x0A] = ''iVBORw0KGgo=''"
  by (simp add: base64_encode_def sextet_char_def base64_alphabet_def)

text \<open>
  Claim C9. For every binary blob, decoding its text-safe encoding gives the bytes back
  exactly. For the encoder: whenever it resolves for a file (whose declared type has no
  comma), its payload is the encoding of the file's bytes and decodes to them, and it
  does resolve for every such file whose bytes are not empty.
\<close>

theorem encoding_round_trip:
  "base64_decode (base64_encode bs) = bs \<and>
   (CHR '','' \<notin> set (file_type f) \<and> fileToBase64 (Load (readAsDataURL f)) = Resolved p \<longrightarrow>
      base64 p = base64_encode (file_bytes f) \<and> base64_decode (base64 p) = file_bytes f) \<and>
   (CHR '','' \<notin> set (file_type f) \<and> file_bytes f \<noteq> [] \<longrightarrow>
      (\<exists>q. fileToBase64 (Load (readAsDataURL f)) = Resolved q))"
proof -
  have a: "base64_decode (base64_encode bs) = bs"
    by (rule base64_decode_encode)
  have r: "fileToBase64 (Load (readAsDataURL f)) =
     (if base64_encode (file_bytes f) = [] then Rejected (Error ''Invalid file format'')
      else Resolved \<lparr>base64 = base64_encode (file_bytes f),
        mimeType = takeWhile (\<lambda>x. x \<noteq> CHR '','' \<and> x \<noteq> CHR '':'' \<and> x \<noteq> CHR '';'') (file_type f)\<rparr>)"
    if "CHR '','' \<notin> set (file_type f)"
    unfolding readAsDataURL_def
    using that base64_encode_no_comma by (rule fileToBase64_resolved_payload)
  have b: "base64 p = base64_encode (file_bytes f) \<and> base64_decode (base64 p) = file_bytes f"
    if "CHR '','' \<notin> set (file_type f) \<and> fileToBase64 (Load (readAsDataURL f)) = Resolved p"
  proof -
    have "base64 p = base64_encode (file_bytes f)"
      using that r by (auto split: if_splits)
    then show ?thesis by (simp add: base64_decode_encode)
  qed
  have c: "\<exists>q. fileToBase64 (Load (readAsDataURL f)) = Resolved q"
    if "CHR '','' \<notin> set (file_type f) \<and> file_bytes f \<noteq> []"
    using that r by (simp add: base64_encode_empty)
  from a b c show ?thesis by blast
qed

theorem encoding_round_trip_witness:
  "base64_decode (base64_encode [0x89, 0x50, 0x4E, 0x47, 0x0D, 0x0A, 0x1A, 0x0A]) =
     [0x89, 0x50, 0x4E, 0x47, 0x0D, 0x0A, 0x1A, 0x0A] \<and>
   base64_decode ''iVBORw0KGgo='' = [0x89, 0x50, 0x4E, 0x47, 0x0D, 0x0A, 0x1A, 0x0A] \<and>
   (\<exists>q. fileToBase64 (Load (readAsDataURL
      \<lparr>file_type = ''image/png'', file_bytes = [0x89, 0x50, 0x4E, 0x47, 0x0D, 0x0A, 0x1A, 0x0A]\<rparr>)) =
      Resolved q)"
proof -
  let ?f = "\<lparr>file_type = ''image/png'', file_bytes = [0x89, 0x50, 0x4E, 0x47, 0x0D, 0x0A, 0x1A, 0x0A :: byte]\<rparr>"
  let ?p = "\<lparr>base64 = ''iVBORw0KGgo='', mimeType = ''image/png''\<rparr>"
  have r: "fileToBase64 (Load (readAsDataURL ?f)) = Resolved ?p"
    by (simp add: readAsDataURL_def png_signature_encoded fileToBase64_def data_url_def)
  show ?thesis
    using encoding_round_trip [of "[0x89, 0x50, 0x4E, 0x47, 0x0D, 0x0A, 0x1A, 0x0A]" ?f ?p] r
    by simp
qed

end
